theory Spec2Isabelle
  imports Main
begin

section \<open>Run-time values of the client\<close>

text \<open>
  The client (\<^verbatim>\<open>src/frontend/src/app/page.tsx\<close>) reads the bodies of the two HTTP
  responses through \<^verbatim>\<open>response.json()\<close>, whose result has the TypeScript type
  \<^verbatim>\<open>any\<close>: whatever the backend sent reaches the state setters unchecked. The values
  are therefore modelled as they are at run time. Numbers are restricted to integers.
\<close>

datatype jsval =
    JUndefined
  | JNull
  | JBool bool
  | JNum int
  | JStr string
  | JArr "jsval list"
  | JObj "(string \<times> jsval) list"

text \<open>The truth value JavaScript gives a value in \<^verbatim>\<open>||\<close>, \<^verbatim>\<open>&&\<close> and \<^verbatim>\<open>!\<close>.\<close>

fun truthy :: "jsval \<Rightarrow> bool" where
  "truthy JUndefined = False"
| "truthy JNull = False"
| "truthy (JBool b) = b"
| "truthy (JNum n) = (n \<noteq> 0)"
| "truthy (JStr s) = (s \<noteq> [])"
| "truthy (JArr xs) = True"
| "truthy (JObj kvs) = True"

definition js_or :: "jsval \<Rightarrow> jsval \<Rightarrow> jsval" where
  "js_or a b = (if truthy a then a else b)"

text \<open>
  Property access \<^verbatim>\<open>v.k\<close>. On \<^verbatim>\<open>null\<close> and \<^verbatim>\<open>undefined\<close> it throws a TypeError
  (\<open>None\<close>); on an object it is the property or \<^verbatim>\<open>undefined\<close>; the keys the client
  reads (\<^verbatim>\<open>status\<close>, \<^verbatim>\<open>detail\<close>, \<^verbatim>\<open>cloned_html\<close>) are no built-in property of a
  boolean, number, string or array, where the access gives \<^verbatim>\<open>undefined\<close>.
\<close>

fun get_prop :: "jsval \<Rightarrow> string \<Rightarrow> jsval option" where
  "get_prop JUndefined k = None"
| "get_prop JNull k = None"
| "get_prop (JObj kvs) k = Some (case map_of kvs k of None \<Rightarrow> JUndefined | Some v \<Rightarrow> v)"
| "get_prop v k = Some JUndefined"

text \<open>\<^verbatim>\<open>String(v)\<close>, the conversion \<^verbatim>\<open>new Error(v)\<close> applies to its argument.\<close>

definition digit_char :: "nat \<Rightarrow> char" where
  "digit_char d = ''0123456789'' ! (d mod 10)"

function show_nat :: "nat \<Rightarrow> string" where
  "show_nat n = (if n < 10 then [digit_char n] else show_nat (n div 10) @ [digit_char n])"
  by pat_completeness auto
termination
  by (relation "measure id") auto

definition show_int :: "int \<Rightarrow> string" where
  "show_int i = (if i < 0 then CHR ''-'' # show_nat (nat (- i)) else show_nat (nat i))"

fun join_with :: "char \<Rightarrow> string list \<Rightarrow> string" where
  "join_with c [] = []"
| "join_with c [s] = s"
| "join_with c (s # t # ss) = s @ c # join_with c (t # ss)"

fun to_string :: "jsval \<Rightarrow> string" where
  "to_string JUndefined = ''undefined''"
| "to_string JNull = ''null''"
| "to_string (JBool b) = (if b then ''true'' else ''false'')"
| "to_string (JNum n) = show_int n"
| "to_string (JStr s) = s"
| "to_string (JArr xs) =
     join_with (CHR '','')
       (map (\<lambda>x. if x = JUndefined \<or> x = JNull then [] else to_string x) xs)"
| "to_string (JObj kvs) = ''[object Object]''"

text \<open>A thrown \<^verbatim>\<open>Error\<close> object; the client reads only its \<^verbatim>\<open>message\<close>.\<close>

datatype js_error = Error (message: string)

definition new_Error :: "jsval \<Rightarrow> js_error" where
  "new_Error v = Error (to_string v)"

text \<open>
  The message of the TypeError thrown by reading property \<open>k\<close> of \<^verbatim>\<open>null\<close> (the
  wording is the engine's; this is V8's).
\<close>

definition null_access :: "string \<Rightarrow> js_error" where
  "null_access k = Error (''Cannot read properties of null (reading '' @ [CHR 0x27] @ k @ [CHR 0x27] @ '')'')"

section \<open>The network as the client sees it\<close>

text \<open>
  A \<^verbatim>\<open>fetch\<close> call either rejects (the network failed; the message is the thrown
  error's) or resolves to a response, of which the client reads \<^verbatim>\<open>ok\<close> (status in
  200..299) and the body. A body that is not JSON makes \<^verbatim>\<open>response.json()\<close> reject
  with a SyntaxError, whose message the body carries here.
\<close>

datatype body = Unparseable string | Parsed jsval

datatype fetch_outcome = Rejected string | Response bool body

definition response_json :: "body \<Rightarrow> js_error + jsval" where
  "response_json b = (case b of Unparseable m \<Rightarrow> Inl (Error m) | Parsed v \<Rightarrow> Inr v)"

text \<open>
  A request as passed to \<^verbatim>\<open>fetch\<close>. The body is the value handed to
  \<^verbatim>\<open>JSON.stringify\<close>; the serialiser itself belongs to the platform.
\<close>

record request =
  req_target :: string
  req_method :: string
  req_headers :: "(string \<times> string) list"
  req_body :: "jsval option"

definition health_request :: request where
  "health_request =
     \<lparr>req_target = ''http://localhost:8000/health'', req_method = ''GET'',
      req_headers = [], req_body = None\<rparr>"

definition clone_request :: "string \<Rightarrow> request" where
  "clone_request u =
     \<lparr>req_target = ''http://localhost:8000/clone'', req_method = ''POST'',
      req_headers = [(''Content-Type'', ''application/json'')],
      req_body = Some (JObj [(''url'', JStr u)])\<rparr>"

section \<open>Component state and handlers\<close>

text \<open>The five \<^verbatim>\<open>useState\<close> cells of \<^verbatim>\<open>App\<close>, with their initial values.\<close>

record app_state =
  url :: string
  clonedHtml :: jsval
  loading :: bool
  error :: "string option"
  backendStatus :: jsval

definition init_state :: app_state where
  "init_state =
     \<lparr>url = [], clonedHtml = JNull, loading = False, error = None,
      backendStatus = JStr ''checking...''\<rparr>"

text \<open>
  \<^verbatim>\<open>checkBackendHealth\<close>, from the point where its \<^verbatim>\<open>fetch\<close> settles: the
  \<^verbatim>\<open>try\<close> block as a value (\<open>Inl\<close> is a throw), then the \<^verbatim>\<open>catch\<close>.
\<close>

definition checkBackendHealth_try :: "fetch_outcome \<Rightarrow> js_error + jsval" where
  "checkBackendHealth_try r =
     (case r of
        Rejected m \<Rightarrow> Inl (Error m)
      | Response okay b \<Rightarrow>
          if okay then
            (case response_json b of
               Inl e \<Rightarrow> Inl e
             | Inr data \<Rightarrow>
                 (case get_prop data ''status'' of
                    None \<Rightarrow> Inl (null_access ''status'')
                  | Some v \<Rightarrow> Inr v))
          else Inr (JStr ''unhealthy''))"

definition checkBackendHealth :: "fetch_outcome \<Rightarrow> app_state \<Rightarrow> app_state" where
  "checkBackendHealth r s =
     (case checkBackendHealth_try r of
        Inr v \<Rightarrow> s\<lparr>backendStatus := v\<rparr>
      | Inl err \<Rightarrow> s\<lparr>backendStatus := JStr ''unreachable''\<rparr>)"

text \<open>
  \<^verbatim>\<open>handleSubmit\<close> up to its \<^verbatim>\<open>await fetch\<close>: the three setters, and the request
  issued with the \<^verbatim>\<open>url\<close> of the render the handler belongs to.
\<close>

definition handleSubmit_begin :: "app_state \<Rightarrow> app_state \<times> request" where
  "handleSubmit_begin s =
     (s\<lparr>loading := True, error := None, clonedHtml := JNull\<rparr>, clone_request (url s))"

text \<open>
  The rest of the \<^verbatim>\<open>try\<close> block once the fetch has settled: \<open>Inr v\<close> is the value
  passed to \<^verbatim>\<open>setClonedHtml\<close>, \<open>Inl err\<close> the error thrown into the \<^verbatim>\<open>catch\<close>.
\<close>

definition handleSubmit_try :: "fetch_outcome \<Rightarrow> js_error + jsval" where
  "handleSubmit_try r =
     (case r of
        Rejected m \<Rightarrow> Inl (Error m)
      | Response okay b \<Rightarrow>
          if \<not> okay then
            (case response_json b of
               Inl e \<Rightarrow> Inl e
             | Inr errorData \<Rightarrow>
                 (case get_prop errorData ''detail'' of
                    None \<Rightarrow> Inl (null_access ''detail'')
                  | Some d \<Rightarrow> Inl (new_Error (js_or d (JStr ''Failed to clone website'')))))
          else
            (case response_json b of
               Inl e \<Rightarrow> Inl e
             | Inr data \<Rightarrow>
                 (case get_prop data ''cloned_html'' of
                    None \<Rightarrow> Inl (null_access ''cloned_html'')
                  | Some h \<Rightarrow> Inr h)))"

text \<open>The \<^verbatim>\<open>catch\<close> block's message: \<^verbatim>\<open>err.message || '...'\<close>.\<close>

definition catch_message :: "js_error \<Rightarrow> string" where
  "catch_message err =
     (if message err \<noteq> [] then message err
      else ''An unexpected error occurred during cloning.'')"

definition handleSubmit_end :: "fetch_outcome \<Rightarrow> app_state \<Rightarrow> app_state" where
  "handleSubmit_end r s =
     (case handleSubmit_try r of
        Inr h \<Rightarrow> s\<lparr>clonedHtml := h\<rparr>
      | Inl err \<Rightarrow> s\<lparr>error := Some (catch_message err)\<rparr>)\<lparr>loading := False\<rparr>"

section \<open>What the component renders\<close>

text \<open>
  The parts of the returned JSX that depend on the state. A conditional block
  \<^verbatim>\<open>{x && (...)}\<close> is \<open>Some\<close> element when \<open>x\<close> is truthy and no element otherwise.
\<close>

record preview =
  srcDoc :: jsval
  frame_title :: string
  sandbox :: string
  frame_loading :: string
  inspection_pre :: jsval

record view =
  status_class :: string
  status_text :: jsval
  input_value :: string
  input_disabled :: bool
  submit_disabled :: bool
  spinner_shown :: bool
  error_message :: "string option"
  cloned_preview :: "preview option"

definition App_view :: "app_state \<Rightarrow> view" where
  "App_view s =
     \<lparr>status_class =
        (if backendStatus s = JStr ''healthy'' then ''status-healthy''
         else if backendStatus s = JStr ''unhealthy'' then ''status-unhealthy''
         else ''status-unreachable''),
      status_text = backendStatus s,
      input_value = url s,
      input_disabled = (loading s \<or> backendStatus s \<noteq> JStr ''healthy''),
      submit_disabled = (loading s \<or> backendStatus s \<noteq> JStr ''healthy''),
      spinner_shown = loading s,
      error_message =
        (case error s of
           None \<Rightarrow> None
         | Some e \<Rightarrow> if e \<noteq> [] then Some e else None),
      cloned_preview =
        (if truthy (clonedHtml s) then
           Some \<lparr>srcDoc = clonedHtml s,
                 frame_title = ''Cloned Website Preview'',
                 sandbox = ''allow-scripts allow-same-origin allow-popups allow-forms allow-modals'',
                 frame_loading = ''lazy'',
                 inspection_pre = clonedHtml s\<rparr>
         else None)\<rparr>"

subsection \<open>The sandbox attribute\<close>

text \<open>
  The attribute is a space-separated set of tokens. A sandboxed frame is denied every
  sandboxable capability except those whose \<^verbatim>\<open>allow-\<close> token is present, so the frame
  restricts a permission exactly when the permission's token is missing.
\<close>

datatype permission = Scripts | SameOrigin | Popups | Forms | Modals

fun allow_token :: "permission \<Rightarrow> string" where
  "allow_token Scripts = ''allow-scripts''"
| "allow_token SameOrigin = ''allow-same-origin''"
| "allow_token Popups = ''allow-popups''"
| "allow_token Forms = ''allow-forms''"
| "allow_token Modals = ''allow-modals''"

fun split_tokens :: "string \<Rightarrow> string \<Rightarrow> string list" where
  "split_tokens cur [] = (if cur = [] then [] else [cur])"
| "split_tokens cur (c # cs) =
     (if c = CHR '' '' then (if cur = [] then [] else [cur]) @ split_tokens [] cs
      else split_tokens (cur @ [c]) cs)"

definition sandbox_tokens :: "string \<Rightarrow> string list" where
  "sandbox_tokens attr = split_tokens [] attr"

definition sandbox_restricts :: "string \<Rightarrow> permission \<Rightarrow> bool" where
  "sandbox_restricts attr p = (allow_token p \<notin> set (sandbox_tokens attr))"

section \<open>The page as a transition system\<close>

text \<open>
  One page load: the mount, whose effect (dependency list \<^verbatim>\<open>[]\<close>) calls
  \<^verbatim>\<open>checkBackendHealth\<close> once, followed by events. The page records every request it
  passes to \<^verbatim>\<open>fetch\<close> and which of them are still in flight. Typing and submitting
  reach their handlers only through controls that are not disabled.
\<close>

datatype event =
    HealthSettled fetch_outcome
  | InputChange string
  | FormSubmit
  | CloneSettled fetch_outcome

record page =
  app :: app_state
  issued :: "request list"
  health_pending :: bool
  clone_pending :: bool

definition mount :: page where
  "mount = \<lparr>app = init_state, issued = [health_request], health_pending = True,
            clone_pending = False\<rparr>"

fun step :: "event \<Rightarrow> page \<Rightarrow> page" where
  "step (HealthSettled r) p =
     (if health_pending p
      then p\<lparr>app := checkBackendHealth r (app p), health_pending := False\<rparr>
      else p)"
| "step (InputChange v) p =
     (if input_disabled (App_view (app p)) then p
      else p\<lparr>app := (app p)\<lparr>url := v\<rparr>\<rparr>)"
| "step FormSubmit p =
     (if submit_disabled (App_view (app p)) then p
      else p\<lparr>app := fst (handleSubmit_begin (app p)),
             issued := issued p @ [snd (handleSubmit_begin (app p))],
             clone_pending := True\<rparr>)"
| "step (CloneSettled r) p =
     (if clone_pending p
      then p\<lparr>app := handleSubmit_end r (app p), clone_pending := False\<rparr>
      else p)"

fun run :: "event list \<Rightarrow> page \<Rightarrow> page" where
  "run [] p = p"
| "run (e # es) p = run es (step e p)"

section \<open>The cloning pipeline behind \<^verbatim>\<open>POST /clone\<close>\<close>

text \<open>
  The backend that serves the two endpoints is not among the sources; the client above is.
  What follows is the pipeline as the specification describes it (its sections 3, 4 and 7),
  so that the specification's statements about the validator, the extractor and the
  orchestrator can be examined. Every definition of this section is modelled from the
  specification, not from code.
\<close>

subsection \<open>Data model\<close>

text \<open>
  Modelled from the spec: the error taxonomy and the entities of the data model (the
  backend's own type declarations are missing). A rendered snapshot is the DOM after
  script execution, held as a tree; an element carries its tag, attributes, computed
  style, rendered width and height, and children.
\<close>

datatype ErrorKind =
    InvalidUrl
  | RenderTimeout
  | RenderUnavailable
  | ProviderUnavailable
  | ProviderRejected
  | MalformedOutput
  | InternalError


record CloneRequest =
  rawUrl :: string

record NormalizedUrl =
  scheme :: string
  host :: string
  path :: string
  query :: string

datatype dom =
    TextNode string
  | Element string "(string \<times> string) list" "(string \<times> string) list" nat nat "dom list"

record RenderedPage =
  finalUrl :: string
  htmlSnapshot :: "dom list"
  statusCode :: nat
  renderDurationMs :: nat

datatype block_kind = KHeading | KParagraph | KImage | KLink | KContainer

datatype block = Block block_kind "string option" "(string \<times> string) list" "block list"

type_synonym PageModel = "block list"

record ProviderRequest =
  systemInstructions :: string
  pageModelSerialized :: string
  maxOutputTokens :: nat

record ClonedHtml =
  html :: string

datatype CloneResult = Success ClonedHtml | Failure ErrorKind string

subsection \<open>URL Validator\<close>

text \<open>
  Modelled from the spec: the normalisation of case (section 2: the validator normalises the
  URL); ASCII letters are lower-cased.
\<close>

definition lower_char :: "char \<Rightarrow> char" where
  "lower_char c =
     (case map_of (zip ''ABCDEFGHIJKLMNOPQRSTUVWXYZ'' ''abcdefghijklmnopqrstuvwxyz'') c of
        None \<Rightarrow> c
      | Some l \<Rightarrow> l)"

definition lower :: "string \<Rightarrow> string" where
  "lower s = map lower_char s"

text \<open>Modelled from the spec: the allowed schemes (section 3, NormalizedUrl).\<close>

definition allowed_schemes :: "string list" where
  "allowed_schemes = [''http'', ''https'']"

text \<open>
  Modelled from the spec: the hosts the validator refuses (section 4.1: loopback and
  link-local addresses).
\<close>

definition disallowed_host :: "string \<Rightarrow> bool" where
  "disallowed_host h =
     (h = ''localhost'' \<or> take 4 h = ''127.'' \<or> h = ''[::1]''
      \<or> take 8 h = ''169.254.'' \<or> take 6 h = ''[fe80:'')"

text \<open>
  Modelled from the spec: the host of an authority, after any user information and before
  any port; an IPv6 literal keeps its brackets.
\<close>

definition authority_host :: "string \<Rightarrow> string" where
  "authority_host a =
     (let hp = (if CHR ''@'' \<in> set a then tl (dropWhile (\<lambda>c. c \<noteq> CHR ''@'') a) else a)
      in lower (if take 1 hp = ''[''
                then takeWhile (\<lambda>c. c \<noteq> CHR '']'') hp @ '']''
                else takeWhile (\<lambda>c. c \<noteq> CHR '':'') hp))"

text \<open>
  Modelled from the spec: the URL Validator (section 4.1), which is missing from the
  sources. The raw string must parse as an absolute URL, scheme, \<^verbatim>\<open>://\<close>, authority,
  then path and query, with an allowed scheme and a host that is neither empty nor
  disallowed; anything else fails with \<open>InvalidUrl\<close>. Scheme and host are lower-cased.
\<close>

definition validate_url :: "string \<Rightarrow> ErrorKind + NormalizedUrl" where
  "validate_url raw =
     (let sch = lower (takeWhile (\<lambda>c. c \<noteq> CHR '':'') raw);
          rest = dropWhile (\<lambda>c. c \<noteq> CHR '':'') raw;
          after = drop 3 rest;
          auth = takeWhile (\<lambda>c. c \<notin> set ''/?#'') after;
          tail = dropWhile (\<lambda>c. c \<notin> set ''/?#'') after;
          pth = takeWhile (\<lambda>c. c \<notin> set ''?#'') tail;
          qtail = dropWhile (\<lambda>c. c \<notin> set ''?#'') tail;
          h = authority_host auth
      in if sch \<notin> set allowed_schemes then Inl InvalidUrl
         else if take 3 rest \<noteq> ''://'' then Inl InvalidUrl
         else if h = [] \<or> disallowed_host h then Inl InvalidUrl
         else Inr \<lparr>scheme = sch, host = h, path = (if pth = [] then ''/'' else pth),
                   query = (if take 1 qtail = ''?''
                            then takeWhile (\<lambda>c. c \<noteq> CHR ''#'') (drop 1 qtail) else [])\<rparr>)"

text \<open>
  Modelled from the spec: what section 8 calls an input with an \<^verbatim>\<open>http\<close>/\<^verbatim>\<open>https\<close>
  scheme: the string starts with \<^verbatim>\<open>http:\<close> or \<^verbatim>\<open>https:\<close>, in any case.
\<close>

definition has_web_scheme :: "string \<Rightarrow> bool" where
  "has_web_scheme raw = (lower (take 5 raw) = ''http:'' \<or> lower (take 6 raw) = ''https:'')"

subsection \<open>Content Extractor\<close>

text \<open>
  Modelled from the spec: the ceilings of the PageModel (section 3: a depth ceiling, for
  example 6, and a byte ceiling on the serialised size, for example 50 KB).
\<close>

record extractor_config =
  max_depth :: nat
  max_bytes :: nat

definition default_config :: extractor_config where
  "default_config = \<lparr>max_depth = 6, max_bytes = 51200\<rparr>"

text \<open>
  Modelled from the spec: the classification of section 4.3. Script, style and meta nodes
  and visually hidden elements (zero size, \<^verbatim>\<open>display: none\<close>) are dropped; semantic tags
  take precedence over generic containers; the style attributes kept are those of the
  allow-list, with the layout role taken from \<^verbatim>\<open>display\<close>.
\<close>

fun dropped :: "dom \<Rightarrow> bool" where
  "dropped (TextNode t) = False"
| "dropped (Element tg ats sts w h ks) =
     (tg \<in> set [''script'', ''style'', ''meta''] \<or> w = 0 \<or> h = 0
      \<or> map_of sts ''display'' = Some ''none'')"

definition classify :: "string \<Rightarrow> block_kind" where
  "classify tg =
     (if tg \<in> set [''h1'', ''h2'', ''h3'', ''h4'', ''h5'', ''h6''] then KHeading
      else if tg = ''p'' then KParagraph
      else if tg = ''img'' then KImage
      else if tg = ''a'' then KLink
      else KContainer)"

definition style_hints :: "(string \<times> string) list \<Rightarrow> (string \<times> string) list" where
  "style_hints sts =
     filter (\<lambda>(k, v). k \<in> set [''color'', ''background'', ''font-size'', ''font-weight'']) sts
     @ (case map_of sts ''display'' of
          None \<Rightarrow> []
        | Some v \<Rightarrow> if v \<in> set [''flex'', ''grid'', ''block''] then [(''layoutRole'', v)] else [])"

fun inner_text :: "dom \<Rightarrow> string" where
  "inner_text (TextNode t) = t"
| "inner_text (Element tg ats sts w h ks) =
     (if dropped (Element tg ats sts w h ks) then []
      else concat (map inner_text ks))"

fun extract_node :: "dom \<Rightarrow> block list" where
  "extract_node (TextNode t) = (if t = [] then [] else [Block KParagraph (Some t) [] []])"
| "extract_node (Element tg ats sts w h ks) =
     (if dropped (Element tg ats sts w h ks) then []
      else if classify tg = KContainer
        then [Block KContainer None (style_hints sts) (concat (map extract_node ks))]
      else if classify tg = KImage
        then [Block KImage (map_of ats ''src'') (style_hints sts) []]
      else [Block (classify tg) (Some (concat (map inner_text ks))) (style_hints sts) []])"

text \<open>
  Modelled from the spec: the depth of a PageModel, which the depth ceiling bounds, and its
  number of nodes.
\<close>

fun block_depth :: "block \<Rightarrow> nat" where
  "block_depth (Block k t a cs) = Suc (foldr max (map block_depth cs) 0)"

definition model_depth :: "block list \<Rightarrow> nat" where
  "model_depth bs = foldr max (map block_depth bs) 0"

fun block_count :: "block \<Rightarrow> nat" where
  "block_count (Block k t a cs) = Suc (sum_list (map block_count cs))"

definition model_count :: "block list \<Rightarrow> nat" where
  "model_count bs = sum_list (map block_count bs)"

text \<open>
  Modelled from the spec: the serialisation whose size the byte ceiling bounds; the
  specification fixes no format. Here a block is a JSON object (strings are written
  unescaped) and a PageModel is its top-level blocks, one per line.
\<close>

definition quoted :: "string \<Rightarrow> string" where
  "quoted s = CHR 0x22 # s @ [CHR 0x22]"

fun kind_name :: "block_kind \<Rightarrow> string" where
  "kind_name KHeading = ''heading''"
| "kind_name KParagraph = ''paragraph''"
| "kind_name KImage = ''image''"
| "kind_name KLink = ''link''"
| "kind_name KContainer = ''container''"

fun serialize_block :: "block \<Rightarrow> string" where
  "serialize_block (Block k t a cs) =
     ''{'' @ quoted ''kind'' @ '':'' @ quoted (kind_name k)
     @ (case t of None \<Rightarrow> [] | Some s \<Rightarrow> '','' @ quoted ''text'' @ '':'' @ quoted s)
     @ '','' @ quoted ''attributes'' @ '':{''
     @ join_with (CHR '','') (map (\<lambda>(n, v). quoted n @ '':'' @ quoted v) a) @ ''}''
     @ '','' @ quoted ''children'' @ '':[''
     @ join_with (CHR '','') (map serialize_block cs) @ '']}''"

definition serialize_model :: "block list \<Rightarrow> string" where
  "serialize_model bs = join_with (CHR 0x0A) (map serialize_block bs)"

definition fits :: "extractor_config \<Rightarrow> block list \<Rightarrow> bool" where
  "fits c bs = (model_depth bs \<le> max_depth c \<and> length (serialize_model bs) \<le> max_bytes c)"

text \<open>
  Modelled from the spec: the deterministic truncation rule of section 3, breadth-first
  retention of earliest siblings. \<open>drop_at d\<close> removes the last node of level \<open>d\<close>;
  \<open>drop_last_bfs\<close> removes the node that comes last in breadth-first order, the last node
  of the deepest level; \<open>prune\<close> removes such nodes until the model is within both
  ceilings, so what is kept is the longest breadth-first prefix that fits.
\<close>

fun drop_at :: "nat \<Rightarrow> block list \<Rightarrow> block list" where
  "drop_at d [] = []"
| "drop_at d (Block k t a cs # bs) =
     (if d \<le> model_depth bs then Block k t a cs # drop_at d bs
      else if d \<le> 1 then bs
      else Block k t a (drop_at (d - 1) cs) # bs)"

definition drop_last_bfs :: "block list \<Rightarrow> block list" where
  "drop_last_bfs bs = drop_at (model_depth bs) bs"

function prune :: "extractor_config \<Rightarrow> block list \<Rightarrow> block list" where
  "prune c bs = (if bs = [] \<or> fits c bs then bs else prune c (drop_last_bfs bs))"
  by pat_completeness auto
termination
proof (relation "measure (\<lambda>(c, bs). model_count bs)")
  show "wf (measure (\<lambda>(c, bs). model_count bs))"
    by simp
next
  fix c :: extractor_config and bs :: "block list"
  assume a: "\<not> (bs = [] \<or> fits c bs)"
  have depth_Cons: "model_depth (b # xs) = max (block_depth b) (model_depth xs)" for b xs
    by (simp add: model_depth_def)
  have depth_Block: "block_depth (Block k t at cs) = Suc (model_depth cs)" for k t at cs
    by (simp add: model_depth_def)
  have count_Cons: "model_count (b # xs) = block_count b + model_count xs" for b xs
    by (simp add: model_count_def)
  have count_Block: "block_count (Block k t at cs) = Suc (model_count cs)" for k t at cs
    by (simp add: model_count_def)
  have fewer: "1 \<le> d \<Longrightarrow> d \<le> model_depth xs \<Longrightarrow> model_count (drop_at d xs) < model_count xs"
    for d xs
  proof (induction d xs rule: drop_at.induct)
    case (1 d)
    then show ?case by (simp add: model_depth_def)
  next
    case (2 d k t at cs xs)
    show ?case
    proof (cases "d \<le> model_depth xs")
      case True
      then show ?thesis using 2 by (simp add: count_Cons)
    next
      case False
      note later = this
      show ?thesis
      proof (cases "d \<le> 1")
        case True
        then show ?thesis using later by (simp add: count_Cons)
      next
        case False
        with later 2 have "d - 1 \<le> model_depth cs" "1 \<le> d - 1"
          by (auto simp add: depth_Cons depth_Block simp del: block_depth.simps)
        with 2 later False have "model_count (drop_at (d - 1) cs) < model_count cs"
          by simp
        then show ?thesis using later False
          by (simp add: count_Cons count_Block del: block_count.simps)
      qed
    qed
  qed
  from a obtain b xs where "bs = b # xs"
    by (cases bs) auto
  then have "1 \<le> model_depth bs"
    by (cases b) (simp add: depth_Cons)
  then have "model_count (drop_last_bfs bs) < model_count bs"
    unfolding drop_last_bfs_def by (intro fewer) simp_all
  then show "((c, drop_last_bfs bs), (c, bs)) \<in> measure (\<lambda>(c, bs). model_count bs)"
    by simp
qed

text \<open>
  Modelled from the spec: the Content Extractor's \<^verbatim>\<open>extract(RenderedPage)\<close> (section
  4.3), which is missing from the sources: classify the snapshot's nodes, then enforce the
  ceilings by the truncation rule.
\<close>

definition extract_page :: "extractor_config \<Rightarrow> RenderedPage \<Rightarrow> block list" where
  "extract_page c p = prune c (concat (map extract_node (htmlSnapshot p)))"

subsection \<open>Clone Orchestrator\<close>

text \<open>
  Modelled from the spec: what a collaborator of the orchestrator can do when called: return
  a value, fail with a kind of the taxonomy and a message, or raise an unexpected fault.
  The Render Client, the Prompt Builder, the selected provider and the parser of the
  provider's output are parameters; the render and the generate call go over the network.
\<close>

datatype 'a outcome = Returned 'a | Failed ErrorKind string | Raised string

record collaborators =
  render :: "NormalizedUrl \<Rightarrow> RenderedPage outcome"
  build :: "block list \<Rightarrow> ProviderRequest outcome"
  generate :: "ProviderRequest \<Rightarrow> string outcome"
  sanitize :: "string \<Rightarrow> string outcome"

datatype call = RenderCall NormalizedUrl | GenerateCall ProviderRequest

text \<open>
  Modelled from the spec: the per-request state machine of section 4.6, which is missing
  from the sources: \<^verbatim>\<open>Validating\<close>, \<^verbatim>\<open>Rendering\<close>, \<^verbatim>\<open>Extracting\<close>, \<^verbatim>\<open>Prompting\<close>,
  \<^verbatim>\<open>Generating\<close>, \<^verbatim>\<open>Sanitizing\<close>, \<^verbatim>\<open>Done\<close>, with a short circuit to a failure from
  any state. A fault raised by a collaborator is caught and reported as \<open>InternalError\<close>.
  The state is paired with the network calls made so far.
\<close>

datatype orch_state =
    Validating CloneRequest
  | Rendering NormalizedUrl
  | Extracting RenderedPage
  | Prompting "block list"
  | Generating ProviderRequest
  | Sanitizing string
  | Done CloneResult

text \<open>
  Modelled from the spec: how the orchestrator continues after a collaborator's call
  (sections 4.6 and 7): on with the value, or to \<^verbatim>\<open>Done\<close> with the failure, a raised
  fault becoming \<open>InternalError\<close>. Every failure carries a message a person can read:
  where the collaborator gave none, the one that goes with the kind.
\<close>

fun default_message :: "ErrorKind \<Rightarrow> string" where
  "default_message InvalidUrl = ''The URL is not valid''"
| "default_message RenderTimeout = ''Rendering the page timed out''"
| "default_message RenderUnavailable = ''The render service is unavailable''"
| "default_message ProviderUnavailable = ''The provider is unavailable''"
| "default_message ProviderRejected = ''The provider declined the request''"
| "default_message MalformedOutput = ''The provider returned no markup''"
| "default_message InternalError = ''An internal error occurred''"

definition readable :: "ErrorKind \<Rightarrow> string \<Rightarrow> string" where
  "readable k m = (if m = [] then default_message k else m)"

definition settle :: "'a outcome \<Rightarrow> ('a \<Rightarrow> orch_state) \<Rightarrow> orch_state" where
  "settle out nxt =
     (case out of
        Returned v \<Rightarrow> nxt v
      | Failed k m \<Rightarrow> Done (Failure k (readable k m))
      | Raised m \<Rightarrow> Done (Failure InternalError (readable InternalError m)))"


text \<open>Modelled from the spec: the message that goes with \<open>InvalidUrl\<close>.\<close>

definition invalid_url_message :: string where
  "invalid_url_message = ''The URL must be an absolute http or https URL of a public host''"

text \<open>Modelled from the spec: one transition of the state machine of section 4.6.\<close>

fun orch_step ::
  "collaborators \<Rightarrow> extractor_config \<Rightarrow> orch_state \<times> call list \<Rightarrow> orch_state \<times> call list"
where
  "orch_step env c (Validating rq, calls) =
     (case validate_url (rawUrl rq) of
        Inl k \<Rightarrow> (Done (Failure k invalid_url_message), calls)
      | Inr u \<Rightarrow> (Rendering u, calls))"
| "orch_step env c (Rendering u, calls) =
     (settle (render env u) Extracting, calls @ [RenderCall u])"
| "orch_step env c (Extracting p, calls) = (Prompting (extract_page c p), calls)"
| "orch_step env c (Prompting m, calls) = (settle (build env m) Generating, calls)"
| "orch_step env c (Generating pr, calls) =
     (settle (generate env pr) Sanitizing, calls @ [GenerateCall pr])"
| "orch_step env c (Sanitizing t, calls) =
     (settle (sanitize env t) (\<lambda>h. Done (Success \<lparr>html = h\<rparr>)), calls)"
| "orch_step env c (Done r, calls) = (Done r, calls)"

text \<open>Modelled from the spec: a bounded number of transitions.\<close>

fun orch_run ::
  "collaborators \<Rightarrow> extractor_config \<Rightarrow> nat \<Rightarrow> orch_state \<times> call list
     \<Rightarrow> orch_state \<times> call list"
where
  "orch_run env c 0 st = st"
| "orch_run env c (Suc n) st = orch_run env c n (orch_step env c st)"

text \<open>
  Modelled from the spec: the orchestrator's entry point. It runs the machine for its six
  transitions and returns the result of the \<^verbatim>\<open>Done\<close> state with the calls made; \<open>None\<close>
  stands for a run that has not reached \<^verbatim>\<open>Done\<close>.
\<close>

definition clone ::
  "collaborators \<Rightarrow> extractor_config \<Rightarrow> CloneRequest \<Rightarrow> (CloneResult \<times> call list) option"
where
  "clone env c rq =
     (case orch_run env c 6 (Validating rq, []) of
        (Done r, calls) \<Rightarrow> Some (r, calls)
      | (st, calls) \<Rightarrow> None)"

text \<open>
  Modelled from the spec: stubs after the end-to-end scenario of the specification's section 8: the render stub
  returns the page \<^verbatim>\<open><html><body><h1>Hi</h1><p>World</p></body></html>\<close>, the provider
  stub a fixed HTML string, and output without any markup is malformed.
\<close>

definition stub_page :: RenderedPage where
  "stub_page =
     \<lparr>finalUrl = ''https://example.com/'',
      htmlSnapshot =
        [Element ''html'' [] [] 800 600
          [Element ''body'' [] [(''display'', ''block'')] 800 600
            [Element ''h1'' [] [(''color'', ''red'')] 800 40 [TextNode ''Hi''],
             Element ''p'' [] [] 800 20 [TextNode ''World'']]]],
      statusCode = 200, renderDurationMs = 12\<rparr>"

definition stub_request :: ProviderRequest where
  "stub_request =
     \<lparr>systemInstructions = ''Regenerate this page as static HTML'',
      pageModelSerialized = [], maxOutputTokens = 4096\<rparr>"

definition stub_env :: collaborators where
  "stub_env =
     \<lparr>render = (\<lambda>u. Returned stub_page),
      build = (\<lambda>m. Returned stub_request),
      generate = (\<lambda>pr. Returned ''<div>Hi World</div>''),
      sanitize = (\<lambda>t. if CHR ''<'' \<in> set t then Returned t
                        else Failed MalformedOutput ''The provider returned no markup'')\<rparr>"

section \<open>Properties of the client\<close>

lemmas handler_defs = handleSubmit_end_def handleSubmit_try_def handleSubmit_begin_def
  response_json_def checkBackendHealth_def checkBackendHealth_try_def

subsection \<open>The preview frame\<close>

lemma sandbox_attr_tokens:
  "sandbox_tokens ''allow-scripts allow-same-origin allow-popups allow-forms allow-modals''
   = [''allow-scripts'', ''allow-same-origin'', ''allow-popups'', ''allow-forms'',
      ''allow-modals'']"
  by (simp add: sandbox_tokens_def)

lemma sandbox_attr_grants:
  "\<not> sandbox_restricts
        ''allow-scripts allow-same-origin allow-popups allow-forms allow-modals'' p"
  unfolding sandbox_restricts_def sandbox_attr_tokens by (cases p) simp_all

text \<open>
  C1, as stated, fails: after a successful clone of \<^verbatim>\<open><p>hi</p>\<close> the preview frame is
  shown and its \<^verbatim>\<open>sandbox\<close> attribute carries \<^verbatim>\<open>allow-scripts\<close>,
  \<^verbatim>\<open>allow-same-origin\<close>, \<^verbatim>\<open>allow-popups\<close>, \<^verbatim>\<open>allow-forms\<close> and \<^verbatim>\<open>allow-modals\<close>, so
  none of the five permissions is restricted for the embedded document.
\<close>

theorem sandbox_restricts_nothing_counterexample:
  "cloned_preview (App_view (handleSubmit_end
      (Response True (Parsed (JObj [(''cloned_html'', JStr ''<p>hi</p>'')])))
      (fst (handleSubmit_begin init_state)))) \<noteq> None
   \<and> \<not> sandbox_restricts (sandbox (the (cloned_preview (App_view (handleSubmit_end
      (Response True (Parsed (JObj [(''cloned_html'', JStr ''<p>hi</p>'')])))
      (fst (handleSubmit_begin init_state))))))) Scripts
   \<and> \<not> sandbox_restricts (sandbox (the (cloned_preview (App_view (handleSubmit_end
      (Response True (Parsed (JObj [(''cloned_html'', JStr ''<p>hi</p>'')])))
      (fst (handleSubmit_begin init_state))))))) SameOrigin
   \<and> \<not> sandbox_restricts (sandbox (the (cloned_preview (App_view (handleSubmit_end
      (Response True (Parsed (JObj [(''cloned_html'', JStr ''<p>hi</p>'')])))
      (fst (handleSubmit_begin init_state))))))) Popups
   \<and> \<not> sandbox_restricts (sandbox (the (cloned_preview (App_view (handleSubmit_end
      (Response True (Parsed (JObj [(''cloned_html'', JStr ''<p>hi</p>'')])))
      (fst (handleSubmit_begin init_state))))))) Forms
   \<and> \<not> sandbox_restricts (sandbox (the (cloned_preview (App_view (handleSubmit_end
      (Response True (Parsed (JObj [(''cloned_html'', JStr ''<p>hi</p>'')])))
      (fst (handleSubmit_begin init_state))))))) Modals"
  by (simp add: handleSubmit_end_def handleSubmit_try_def response_json_def App_view_def
      handleSubmit_begin_def init_state_def sandbox_attr_grants)

text \<open>
  C1, amended: for every successful clone whose \<^verbatim>\<open>cloned_html\<close> is truthy (a non-empty
  string), the returned HTML is the \<^verbatim>\<open>srcDoc\<close> of a frame that has a \<^verbatim>\<open>sandbox\<close>
  attribute, and that attribute is the fixed token list granting scripts, same-origin
  access, popups, forms and modals: the sandbox restricts none of these five permissions.
\<close>

theorem preview_sandbox_grants:
  assumes "get_prop data ''cloned_html'' = Some h" and "truthy h"
  shows "cloned_preview (App_view (handleSubmit_end (Response True (Parsed data)) s))
           = Some \<lparr>srcDoc = h, frame_title = ''Cloned Website Preview'',
                   sandbox = ''allow-scripts allow-same-origin allow-popups allow-forms allow-modals'',
                   frame_loading = ''lazy'', inspection_pre = h\<rparr>
         \<and> \<not> sandbox_restricts
               (sandbox (the (cloned_preview
                  (App_view (handleSubmit_end (Response True (Parsed data)) s))))) p"
  using assms
  by (simp add: handleSubmit_end_def handleSubmit_try_def response_json_def App_view_def
      sandbox_attr_grants)

theorem preview_sandbox_grants_witness:
  "cloned_preview (App_view (handleSubmit_end
      (Response True (Parsed (JObj [(''cloned_html'', JStr ''<h1>Hi</h1>'')]))) init_state))
     = Some \<lparr>srcDoc = JStr ''<h1>Hi</h1>'', frame_title = ''Cloned Website Preview'',
             sandbox = ''allow-scripts allow-same-origin allow-popups allow-forms allow-modals'',
             frame_loading = ''lazy'', inspection_pre = JStr ''<h1>Hi</h1>''\<rparr>
   \<and> \<not> sandbox_restricts
         (sandbox (the (cloned_preview (App_view (handleSubmit_end
            (Response True (Parsed (JObj [(''cloned_html'', JStr ''<h1>Hi</h1>'')])))
            init_state))))) Scripts"
proof -
  have f: "get_prop (JObj [(''cloned_html'', JStr ''<h1>Hi</h1>'')]) ''cloned_html''
             = Some (JStr ''<h1>Hi</h1>'')"
    by simp
  have t: "truthy (JStr ''<h1>Hi</h1>'')"
    by simp
  show ?thesis
    by (rule preview_sandbox_grants [OF f t])
qed

subsection \<open>Failed clone requests\<close>

lemma handleSubmit_try_failed: "\<exists>e. handleSubmit_try (Response False b) = Inl e"
  by (cases b; simp add: handleSubmit_try_def response_json_def split: option.splits)

text \<open>
  C2, as stated, fails: a non-2xx response whose body is \<^verbatim>\<open>{"detail": ""}\<close> has a
  \<^verbatim>\<open>detail\<close> string, which is present, yet the message the client stores and shows is
  \<^verbatim>\<open>Failed to clone website\<close>, not that string.
\<close>

theorem empty_detail_counterexample:
  "get_prop (JObj [(''detail'', JStr [])]) ''detail'' = Some (JStr [])
   \<and> error (handleSubmit_end (Response False (Parsed (JObj [(''detail'', JStr [])])))
        (fst (handleSubmit_begin init_state))) = Some ''Failed to clone website''
   \<and> error_message (App_view (handleSubmit_end
        (Response False (Parsed (JObj [(''detail'', JStr [])])))
        (fst (handleSubmit_begin init_state)))) \<noteq> Some []"
  by (simp add: handler_defs App_view_def js_or_def new_Error_def catch_message_def
      init_state_def)

text \<open>
  C2, amended: for every submission that receives a non-2xx response no cloned preview is
  displayed and an error message is; when the body is a JSON object whose \<^verbatim>\<open>detail\<close> is
  a non-empty string, that string is the message shown; when \<^verbatim>\<open>detail\<close> is absent or
  the empty string, the message shown is \<^verbatim>\<open>Failed to clone website\<close>; when the body is
  not JSON, the message shown is the one of the error raised on reading it.
\<close>

theorem clone_failure_message:
  "cloned_preview (App_view (handleSubmit_end (Response False b) (fst (handleSubmit_begin s))))
     = None
   \<and> error_message (App_view (handleSubmit_end (Response False b)
          (fst (handleSubmit_begin s)))) \<noteq> None
   \<and> (b = Parsed (JObj kvs) \<and> map_of kvs ''detail'' = Some (JStr d) \<and> d \<noteq> [] \<longrightarrow>
        error_message (App_view (handleSubmit_end (Response False b)
          (fst (handleSubmit_begin s)))) = Some d)
   \<and> (b = Parsed (JObj kvs)
        \<and> (map_of kvs ''detail'' = None \<or> map_of kvs ''detail'' = Some (JStr [])) \<longrightarrow>
        error_message (App_view (handleSubmit_end (Response False b)
          (fst (handleSubmit_begin s)))) = Some ''Failed to clone website'')
   \<and> (b = Unparseable m \<and> m \<noteq> [] \<longrightarrow>
        error_message (App_view (handleSubmit_end (Response False b)
          (fst (handleSubmit_begin s)))) = Some m)"
proof (intro conjI impI)
  obtain e where e: "handleSubmit_try (Response False b) = Inl e"
    using handleSubmit_try_failed by blast
  then show "cloned_preview (App_view (handleSubmit_end (Response False b)
      (fst (handleSubmit_begin s)))) = None"
    by (simp add: handleSubmit_end_def handleSubmit_begin_def App_view_def)
  have "catch_message e \<noteq> []"
    by (simp add: catch_message_def)
  with e show "error_message (App_view (handleSubmit_end (Response False b)
      (fst (handleSubmit_begin s)))) \<noteq> None"
    by (simp add: handleSubmit_end_def handleSubmit_begin_def App_view_def)
next
  assume "b = Parsed (JObj kvs) \<and> map_of kvs ''detail'' = Some (JStr d) \<and> d \<noteq> []"
  then show "error_message (App_view (handleSubmit_end (Response False b)
      (fst (handleSubmit_begin s)))) = Some d"
    by (simp add: handler_defs App_view_def js_or_def new_Error_def catch_message_def)
next
  assume "b = Parsed (JObj kvs)
        \<and> (map_of kvs ''detail'' = None \<or> map_of kvs ''detail'' = Some (JStr []))"
  then show "error_message (App_view (handleSubmit_end (Response False b)
      (fst (handleSubmit_begin s)))) = Some ''Failed to clone website''"
    by (auto simp add: handler_defs App_view_def js_or_def new_Error_def catch_message_def)
next
  assume "b = Unparseable m \<and> m \<noteq> []"
  then show "error_message (App_view (handleSubmit_end (Response False b)
      (fst (handleSubmit_begin s)))) = Some m"
    by (simp add: handler_defs App_view_def catch_message_def)
qed

theorem clone_failure_message_witness:
  "error_message (App_view (handleSubmit_end
      (Response False (Parsed (JObj [(''detail'', JStr ''Invalid URL'')])))
      (fst (handleSubmit_begin init_state)))) = Some ''Invalid URL''
   \<and> error_message (App_view (handleSubmit_end
      (Response False (Parsed (JObj [])))
      (fst (handleSubmit_begin init_state)))) = Some ''Failed to clone website''
   \<and> cloned_preview (App_view (handleSubmit_end
      (Response False (Parsed (JObj [])))
      (fst (handleSubmit_begin init_state)))) = None
   \<and> error_message (App_view (handleSubmit_end
      (Response False (Unparseable ''Unexpected token < in JSON at position 0''))
      (fst (handleSubmit_begin init_state))))
       = Some ''Unexpected token < in JSON at position 0''"
  using clone_failure_message [of "Parsed (JObj [(''detail'', JStr ''Invalid URL'')])" init_state
          "[(''detail'', JStr ''Invalid URL'')]" "''Invalid URL''"]
        clone_failure_message [of "Parsed (JObj [])" init_state "[]" "[]"]
        clone_failure_message [of "Unparseable ''Unexpected token < in JSON at position 0''"
          init_state "[]" "[]" "''Unexpected token < in JSON at position 0''"]
  by simp

subsection \<open>The clone request and its result\<close>

lemma step_issued_shape:
  assumes "issued p = health_request # map clone_request us"
  shows "\<exists>us'. issued (step e p) = health_request # map clone_request us'"
proof (cases e)
  case FormSubmit
  show ?thesis
  proof (cases "submit_disabled (App_view (app p))")
    case True
    then show ?thesis using assms FormSubmit by auto
  next
    case False
    then have "issued (step e p) = health_request # map clone_request (us @ [url (app p)])"
      using assms FormSubmit by (simp add: handleSubmit_begin_def)
    then show ?thesis by blast
  qed
qed (use assms in auto)

lemma run_issued_shape:
  "\<exists>us. issued p = health_request # map clone_request us \<Longrightarrow>
   \<exists>us. issued (run es p) = health_request # map clone_request us"
proof (induction es arbitrary: p)
  case Nil
  then show ?case by simp
next
  case (Cons e es)
  from Cons.prems obtain us where "issued p = health_request # map clone_request us"
    by blast
  then have "\<exists>us'. issued (step e p) = health_request # map clone_request us'"
    by (rule step_issued_shape)
  then show ?case using Cons.IH by simp
qed

lemma step_keeps_url:
  "(\<forall>v. e \<noteq> InputChange v) \<Longrightarrow> url (app (step e p)) = url (app p)"
  by (cases e) (auto simp add: handler_defs split: sum.splits)

text \<open>
  C3: over a page load, every request the client issues after the health check is a clone
  request: a POST to the \<^verbatim>\<open>/clone\<close> endpoint with header
  \<^verbatim>\<open>Content-Type: application/json\<close> and the JSON body \<^verbatim>\<open>{"url": url}\<close>, where
  \<^verbatim>\<open>url\<close> is the value of the input at the submission, that is, the string last entered
  through an enabled input; and when a pending clone request settles with a 2xx response,
  the page's \<^verbatim>\<open>clonedHtml\<close> is exactly the body's \<^verbatim>\<open>cloned_html\<close> field, and the frame
  and the inspection block, shown when that value is truthy, display exactly it.
\<close>

theorem clone_request_and_result:
  "(\<exists>us. issued (run es mount) = health_request # map clone_request us)
   \<and> input_value (App_view s) = url s
   \<and> snd (handleSubmit_begin s) =
      \<lparr>req_target = ''http://localhost:8000/clone'', req_method = ''POST'',
       req_headers = [(''Content-Type'', ''application/json'')],
       req_body = Some (JObj [(''url'', JStr (url s))])\<rparr>
   \<and> (get_prop data ''cloned_html'' = Some h \<longrightarrow>
        clonedHtml (handleSubmit_end (Response True (Parsed data)) s') = h
        \<and> (truthy h \<longrightarrow>
             map_option srcDoc (cloned_preview (App_view
               (handleSubmit_end (Response True (Parsed data)) s'))) = Some h
             \<and> map_option inspection_pre (cloned_preview (App_view
               (handleSubmit_end (Response True (Parsed data)) s'))) = Some h)
        \<and> (\<not> truthy h \<longrightarrow>
             cloned_preview (App_view (handleSubmit_end (Response True (Parsed data)) s'))
               = None))
   \<and> (\<not> input_disabled (App_view (app p)) \<longrightarrow>
        input_value (App_view (app (step (InputChange u) p))) = u
        \<and> issued (run [InputChange u, FormSubmit] p) = issued p @
            [\<lparr>req_target = ''http://localhost:8000/clone'', req_method = ''POST'',
              req_headers = [(''Content-Type'', ''application/json'')],
              req_body = Some (JObj [(''url'', JStr u)])\<rparr>]
        \<and> clone_pending (run [InputChange u, FormSubmit] p))
   \<and> ((\<forall>v. e \<noteq> InputChange v) \<longrightarrow>
        input_value (App_view (app (step e p))) = input_value (App_view (app p)))
   \<and> (issued (step e p) = issued p
        \<or> e = FormSubmit \<and> issued (step e p) = issued p @
            [\<lparr>req_target = ''http://localhost:8000/clone'', req_method = ''POST'',
              req_headers = [(''Content-Type'', ''application/json'')],
              req_body = Some (JObj [(''url'', JStr (input_value (App_view (app p))))])\<rparr>])
   \<and> (clone_pending p \<and> get_prop data ''cloned_html'' = Some h \<longrightarrow>
        clonedHtml (app (step (CloneSettled (Response True (Parsed data))) p)) = h
        \<and> (truthy h \<longrightarrow>
             map_option srcDoc (cloned_preview (App_view
               (app (step (CloneSettled (Response True (Parsed data))) p)))) = Some h
             \<and> map_option inspection_pre (cloned_preview (App_view
               (app (step (CloneSettled (Response True (Parsed data))) p)))) = Some h)
        \<and> (\<not> truthy h \<longrightarrow>
             cloned_preview (App_view
               (app (step (CloneSettled (Response True (Parsed data))) p))) = None))
   \<and> (\<not> input_disabled (App_view (app p)) \<and> get_prop data ''cloned_html'' = Some h \<longrightarrow>
        clonedHtml (app (run [InputChange u, FormSubmit,
            CloneSettled (Response True (Parsed data))] p)) = h
        \<and> (truthy h \<longrightarrow>
             map_option srcDoc (cloned_preview (App_view (app (run [InputChange u, FormSubmit,
               CloneSettled (Response True (Parsed data))] p)))) = Some h))"
proof -
  have "\<exists>us. issued mount = health_request # map clone_request us"
    by (simp add: mount_def)
  then have a: "\<exists>us. issued (run es mount) = health_request # map clone_request us"
    by (rule run_issued_shape)
  have b: "(\<forall>v. e \<noteq> InputChange v) \<longrightarrow>
        input_value (App_view (app (step e p))) = input_value (App_view (app p))"
    using step_keeps_url [of e p] by (simp add: App_view_def)
  have c: "issued (step e p) = issued p
        \<or> e = FormSubmit \<and> issued (step e p) = issued p @
            [\<lparr>req_target = ''http://localhost:8000/clone'', req_method = ''POST'',
              req_headers = [(''Content-Type'', ''application/json'')],
              req_body = Some (JObj [(''url'', JStr (input_value (App_view (app p))))])\<rparr>]"
    by (cases e) (auto simp add: handleSubmit_begin_def clone_request_def App_view_def)
  show ?thesis
    using a b c
    by (simp add: handler_defs App_view_def clone_request_def)
qed

theorem clone_request_and_result_witness:
  "issued (run [HealthSettled (Response True (Parsed (JObj [(''status'', JStr ''healthy'')]))),
                InputChange ''https://example.com'', FormSubmit] mount)
     = [health_request,
        \<lparr>req_target = ''http://localhost:8000/clone'', req_method = ''POST'',
         req_headers = [(''Content-Type'', ''application/json'')],
         req_body = Some (JObj [(''url'', JStr ''https://example.com'')])\<rparr>]
   \<and> map_option srcDoc (cloned_preview (App_view (app (run
        [HealthSettled (Response True (Parsed (JObj [(''status'', JStr ''healthy'')]))),
         InputChange ''https://example.com'', FormSubmit,
         CloneSettled (Response True
           (Parsed (JObj [(''cloned_html'', JStr ''<div>Hi World</div>'')])))] mount))))
       = Some (JStr ''<div>Hi World</div>'')
   \<and> cloned_preview (App_view (handleSubmit_end
        (Response True (Parsed (JObj [(''cloned_html'', JStr [])])))
        (fst (handleSubmit_begin (init_state\<lparr>url := ''https://example.com''\<rparr>))))) = None"
  using clone_request_and_result
          [of "[]" "init_state\<lparr>url := ''https://example.com''\<rparr>"
              "JObj [(''cloned_html'', JStr ''<div>Hi World</div>'')]"
              "JStr ''<div>Hi World</div>''"
              "fst (handleSubmit_begin (init_state\<lparr>url := ''https://example.com''\<rparr>))"
              "run [HealthSettled (Response True (Parsed (JObj [(''status'', JStr ''healthy'')])))]
                 mount"
              "''https://example.com''" FormSubmit]
        clone_request_and_result
          [of "[]" "init_state\<lparr>url := ''https://example.com''\<rparr>"
              "JObj [(''cloned_html'', JStr [])]" "JStr []"
              "fst (handleSubmit_begin (init_state\<lparr>url := ''https://example.com''\<rparr>))"
              "run [HealthSettled (Response True (Parsed (JObj [(''status'', JStr ''healthy'')]))),
                    InputChange ''https://example.com'', FormSubmit] mount"
              "''https://example.com''" "CloneSettled (Rejected [])"]
  by (simp add: handler_defs App_view_def mount_def init_state_def health_request_def)

subsection \<open>The displayed backend status\<close>

text \<open>
  C4, as stated, fails: when the health request cannot reach the backend, the status the
  client displays once the check has completed is \<^verbatim>\<open>unreachable\<close>, which is none of
  \<^verbatim>\<open>healthy\<close>, \<^verbatim>\<open>unhealthy\<close>, \<^verbatim>\<open>degraded\<close>.
\<close>

theorem status_unreachable_counterexample:
  "status_text (App_view (checkBackendHealth (Rejected ''Failed to fetch'') init_state))
     \<notin> {JStr ''healthy'', JStr ''unhealthy'', JStr ''degraded''}"
  by (simp add: handler_defs App_view_def init_state_def)

text \<open>
  C4, amended: the status displayed after the health check completes is
  \<^verbatim>\<open>unreachable\<close> (the request or the reading of its body failed), \<^verbatim>\<open>unhealthy\<close>
  (a non-2xx response), or the \<^verbatim>\<open>status\<close> field of the 2xx body, passed on unchecked;
  so with a backend that reports only \<^verbatim>\<open>healthy\<close>, \<^verbatim>\<open>unhealthy\<close> or \<^verbatim>\<open>degraded\<close>, the
  displayed value is one of these three or \<^verbatim>\<open>unreachable\<close>.
\<close>

theorem displayed_status_values:
  "(status_text (App_view (checkBackendHealth r s)) = JStr ''unreachable''
    \<or> status_text (App_view (checkBackendHealth r s)) = JStr ''unhealthy''
    \<or> (\<exists>data. r = Response True (Parsed data)
          \<and> get_prop data ''status'' = Some (status_text (App_view (checkBackendHealth r s)))))
   \<and> ((\<forall>data. r = Response True (Parsed data) \<longrightarrow>
          get_prop data ''status'' \<in> {Some (JStr ''healthy''), Some (JStr ''unhealthy''),
                                         Some (JStr ''degraded'')}) \<longrightarrow>
        status_text (App_view (checkBackendHealth r s))
          \<in> {JStr ''healthy'', JStr ''unhealthy'', JStr ''degraded'', JStr ''unreachable''})"
  by (cases r) (auto simp add: handler_defs App_view_def split: body.splits option.splits)

theorem displayed_status_values_witness:
  "status_text (App_view (checkBackendHealth
      (Response True (Parsed (JObj [(''status'', JStr ''degraded'')]))) init_state))
     = JStr ''degraded''
   \<and> status_text (App_view (checkBackendHealth
      (Response True (Parsed (JObj [(''status'', JStr ''degraded'')]))) init_state))
     \<in> {JStr ''healthy'', JStr ''unhealthy'', JStr ''degraded'', JStr ''unreachable''}"
  using displayed_status_values
          [of "Response True (Parsed (JObj [(''status'', JStr ''degraded'')]))" init_state]
  by (simp add: handler_defs App_view_def)

subsection \<open>When a request can be submitted\<close>

lemma step_pending_loading:
  "(clone_pending p \<longrightarrow> loading (app p)) \<Longrightarrow>
   clone_pending (step e p) \<longrightarrow> loading (app (step e p))"
  by (cases e) (auto simp add: handler_defs App_view_def split: sum.splits)

lemma run_pending_loading:
  "(clone_pending p \<longrightarrow> loading (app p)) \<Longrightarrow>
   clone_pending (run es p) \<longrightarrow> loading (app (run es p))"
proof (induction es arbitrary: p)
  case Nil
  then show ?case by simp
next
  case (Cons e es)
  from Cons.prems have "clone_pending (step e p) \<longrightarrow> loading (app (step e p))"
    by (rule step_pending_loading)
  then show ?case using Cons.IH by simp
qed

lemma mount_pending_loading:
  "clone_pending (run es mount) \<longrightarrow> loading (app (run es mount))"
  by (rule run_pending_loading) (simp add: mount_def)

text \<open>
  C8: in every rendered state with \<^verbatim>\<open>loading\<close> true or \<^verbatim>\<open>backendStatus\<close> other than
  \<^verbatim>\<open>healthy\<close> (so also with \<^verbatim>\<open>degraded\<close>), both the URL input and the submit button are
  disabled; in every state the page can reach, a submission or an edit of the input then
  changes nothing, and a submission that issues a request finds the status \<^verbatim>\<open>healthy\<close>
  and no clone request in flight.
\<close>

theorem submit_only_when_healthy_and_idle:
  "(loading s \<or> backendStatus s \<noteq> JStr ''healthy'' \<longrightarrow>
      input_disabled (App_view s) \<and> submit_disabled (App_view s))
   \<and> (backendStatus s = JStr ''degraded'' \<longrightarrow>
      input_disabled (App_view s) \<and> submit_disabled (App_view s))
   \<and> (clone_pending (run es mount) \<or> loading (app (run es mount))
        \<or> backendStatus (app (run es mount)) \<noteq> JStr ''healthy'' \<longrightarrow>
      step FormSubmit (run es mount) = run es mount
      \<and> step (InputChange v) (run es mount) = run es mount)
   \<and> (issued (step FormSubmit (run es mount)) \<noteq> issued (run es mount) \<longrightarrow>
      \<not> clone_pending (run es mount) \<and> \<not> loading (app (run es mount))
      \<and> backendStatus (app (run es mount)) = JStr ''healthy'')"
  using mount_pending_loading [of es]
  by (auto simp add: App_view_def)

theorem submit_only_when_healthy_and_idle_witness:
  "input_disabled (App_view (init_state\<lparr>backendStatus := JStr ''degraded''\<rparr>))
   \<and> submit_disabled (App_view (init_state\<lparr>backendStatus := JStr ''degraded''\<rparr>))
   \<and> step FormSubmit (run [HealthSettled
        (Response True (Parsed (JObj [(''status'', JStr ''degraded'')])))] mount)
       = run [HealthSettled
        (Response True (Parsed (JObj [(''status'', JStr ''degraded'')])))] mount
   \<and> issued (step FormSubmit (run [HealthSettled
        (Response True (Parsed (JObj [(''status'', JStr ''healthy'')])))] mount))
       \<noteq> issued (run [HealthSettled
        (Response True (Parsed (JObj [(''status'', JStr ''healthy'')])))] mount)
   \<and> backendStatus (app (run [HealthSettled
        (Response True (Parsed (JObj [(''status'', JStr ''healthy'')])))] mount))
       = JStr ''healthy''"
  using submit_only_when_healthy_and_idle
          [of "init_state\<lparr>backendStatus := JStr ''degraded''\<rparr>"
              "[HealthSettled (Response True (Parsed (JObj [(''status'', JStr ''degraded'')])))]"]
        submit_only_when_healthy_and_idle
          [of "init_state\<lparr>backendStatus := JStr ''degraded''\<rparr>"
              "[HealthSettled (Response True (Parsed (JObj [(''status'', JStr ''healthy'')])))]"]
  by (simp add: handler_defs App_view_def mount_def init_state_def)

subsection \<open>The state around a submission\<close>

text \<open>
  C9: a submission first sets \<^verbatim>\<open>clonedHtml\<close> and \<^verbatim>\<open>error\<close> to null (and
  \<^verbatim>\<open>loading\<close> to true); when the request has settled, in whatever way, \<^verbatim>\<open>loading\<close> is
  false and at most one of \<^verbatim>\<open>clonedHtml\<close> and \<^verbatim>\<open>error\<close> is non-null. A 2xx response
  whose body can be read sets only \<^verbatim>\<open>clonedHtml\<close>; every other outcome, a rejected
  request, a non-2xx response, or a 2xx response whose body cannot be read, sets only
  \<^verbatim>\<open>error\<close>, to a non-empty message that is displayed with no preview. A preview is
  never rendered together with an error message.
\<close>

theorem submit_state_invariant:
  "clonedHtml (fst (handleSubmit_begin s)) = JNull
   \<and> error (fst (handleSubmit_begin s)) = None
   \<and> loading (fst (handleSubmit_begin s))
   \<and> \<not> loading (handleSubmit_end r (fst (handleSubmit_begin s)))
   \<and> (clonedHtml (handleSubmit_end r (fst (handleSubmit_begin s))) = JNull
        \<or> error (handleSubmit_end r (fst (handleSubmit_begin s))) = None)
   \<and> (r = Response True (Parsed data) \<and> get_prop data ''cloned_html'' = Some h \<longrightarrow>
        clonedHtml (handleSubmit_end r (fst (handleSubmit_begin s))) = h
        \<and> error (handleSubmit_end r (fst (handleSubmit_begin s))) = None)
   \<and> ((\<exists>m. r = Rejected m) \<or> (\<exists>b. r = Response False b) \<longrightarrow>
        clonedHtml (handleSubmit_end r (fst (handleSubmit_begin s))) = JNull
        \<and> error (handleSubmit_end r (fst (handleSubmit_begin s))) \<noteq> None)
   \<and> (\<not> (\<exists>d v. r = Response True (Parsed d) \<and> get_prop d ''cloned_html'' = Some v) \<longrightarrow>
        clonedHtml (handleSubmit_end r (fst (handleSubmit_begin s))) = JNull
        \<and> error (handleSubmit_end r (fst (handleSubmit_begin s))) \<noteq> None
        \<and> error (handleSubmit_end r (fst (handleSubmit_begin s))) \<noteq> Some []
        \<and> cloned_preview (App_view (handleSubmit_end r (fst (handleSubmit_begin s)))) = None
        \<and> error_message (App_view (handleSubmit_end r (fst (handleSubmit_begin s))))
            = error (handleSubmit_end r (fst (handleSubmit_begin s))))
   \<and> (r = Response True (Unparseable m) \<and> m \<noteq> [] \<longrightarrow>
        clonedHtml (handleSubmit_end r (fst (handleSubmit_begin s))) = JNull
        \<and> error (handleSubmit_end r (fst (handleSubmit_begin s))) = Some m)
   \<and> (cloned_preview (App_view (handleSubmit_end r (fst (handleSubmit_begin s)))) \<noteq> None \<longrightarrow>
        error_message (App_view (handleSubmit_end r (fst (handleSubmit_begin s)))) = None)
   \<and> (clone_pending p \<longrightarrow>
        \<not> loading (app (step (CloneSettled r) p))
        \<and> (clonedHtml (app p) = JNull \<and> error (app p) = None \<longrightarrow>
             clonedHtml (app (step (CloneSettled r) p)) = JNull
             \<or> error (app (step (CloneSettled r) p)) = None))
   \<and> (\<not> submit_disabled (App_view (app p)) \<longrightarrow>
        clonedHtml (app (step FormSubmit p)) = JNull
        \<and> error (app (step FormSubmit p)) = None
        \<and> loading (app (step FormSubmit p))
        \<and> clone_pending (step FormSubmit p))"
  by (cases r)
    (auto simp add: handler_defs App_view_def catch_message_def
       split: sum.splits body.splits option.splits)

theorem submit_state_invariant_witness:
  "clonedHtml (handleSubmit_end
      (Response True (Parsed (JObj [(''cloned_html'', JStr ''<p>new</p>'')])))
      (fst (handleSubmit_begin
        (init_state\<lparr>clonedHtml := JStr ''<p>old</p>'', error := Some ''old error''\<rparr>))))
     = JStr ''<p>new</p>''
   \<and> error (handleSubmit_end
      (Response True (Parsed (JObj [(''cloned_html'', JStr ''<p>new</p>'')])))
      (fst (handleSubmit_begin
        (init_state\<lparr>clonedHtml := JStr ''<p>old</p>'', error := Some ''old error''\<rparr>))))
     = None
   \<and> clonedHtml (handleSubmit_end (Rejected ''Failed to fetch'')
      (fst (handleSubmit_begin
        (init_state\<lparr>clonedHtml := JStr ''<p>old</p>'', error := Some ''old error''\<rparr>))))
     = JNull
   \<and> error (handleSubmit_end (Rejected ''Failed to fetch'')
      (fst (handleSubmit_begin
        (init_state\<lparr>clonedHtml := JStr ''<p>old</p>'', error := Some ''old error''\<rparr>))))
     = Some ''Failed to fetch''
   \<and> clonedHtml (handleSubmit_end (Response True (Unparseable ''Unexpected end of JSON input''))
      (fst (handleSubmit_begin
        (init_state\<lparr>clonedHtml := JStr ''<p>old</p>'', error := Some ''old error''\<rparr>))))
     = JNull
   \<and> error (handleSubmit_end (Response True (Unparseable ''Unexpected end of JSON input''))
      (fst (handleSubmit_begin
        (init_state\<lparr>clonedHtml := JStr ''<p>old</p>'', error := Some ''old error''\<rparr>))))
     = Some ''Unexpected end of JSON input''
   \<and> \<not> loading (app (run
        [HealthSettled (Response True (Parsed (JObj [(''status'', JStr ''healthy'')]))),
         FormSubmit, CloneSettled (Response True (Parsed JNull))] mount))"
  using submit_state_invariant
          [of "init_state\<lparr>clonedHtml := JStr ''<p>old</p>'', error := Some ''old error''\<rparr>"
              "Response True (Parsed (JObj [(''cloned_html'', JStr ''<p>new</p>'')]))"
              "JObj [(''cloned_html'', JStr ''<p>new</p>'')]" "JStr ''<p>new</p>''" "[]"
              "run [HealthSettled (Response True (Parsed (JObj [(''status'', JStr ''healthy'')])))]
                 mount"]
        submit_state_invariant
          [of "init_state\<lparr>clonedHtml := JStr ''<p>old</p>'', error := Some ''old error''\<rparr>"
              "Rejected ''Failed to fetch''" JNull JNull "[]" mount]
        submit_state_invariant
          [of "init_state\<lparr>clonedHtml := JStr ''<p>old</p>'', error := Some ''old error''\<rparr>"
              "Response True (Unparseable ''Unexpected end of JSON input'')" JNull JNull
              "''Unexpected end of JSON input''" mount]
        submit_state_invariant
          [of init_state "Response True (Parsed JNull)" JNull JNull "[]"
              "run [HealthSettled (Response True (Parsed (JObj [(''status'', JStr ''healthy'')]))),
                    FormSubmit] mount"]
  by (simp add: handler_defs catch_message_def App_view_def mount_def init_state_def)

subsection \<open>The health check over a page load\<close>

lemma clone_request_not_health: "clone_request u \<noteq> health_request"
  by (simp add: clone_request_def health_request_def)

lemma step_health_count:
  "length (filter (\<lambda>q. q = health_request) (issued (step e p)))
     = length (filter (\<lambda>q. q = health_request) (issued p))"
  by (cases e) (auto simp add: handleSubmit_begin_def clone_request_not_health)

lemma run_health_count:
  "length (filter (\<lambda>q. q = health_request) (issued (run es p)))
     = length (filter (\<lambda>q. q = health_request) (issued p))"
  by (induction es arbitrary: p) (simp_all add: step_health_count)

lemma step_status_fixed:
  "\<not> health_pending p \<Longrightarrow>
   \<not> health_pending (step e p) \<and> backendStatus (app (step e p)) = backendStatus (app p)"
  by (cases e) (auto simp add: handler_defs split: sum.splits)

lemma run_status_fixed:
  "\<not> health_pending p \<Longrightarrow> backendStatus (app (run es p)) = backendStatus (app p)"
proof (induction es arbitrary: p)
  case Nil
  then show ?case by simp
next
  case (Cons e es)
  have "\<not> health_pending (step e p)" "backendStatus (app (step e p)) = backendStatus (app p)"
    using step_status_fixed [OF Cons.prems] by simp_all
  then show ?case using Cons.IH [of "step e p"] by simp
qed

text \<open>
  C10: the mount issues the one health request of a page load, and no later event issues
  another; once that request has settled, the backend status held by the client, and so
  the status it displays, stays the same through every further sequence of events.
\<close>

theorem health_checked_once:
  "issued mount = [health_request]
   \<and> length (filter (\<lambda>q. q = health_request) (issued (run es mount))) = 1
   \<and> (\<not> health_pending (run es mount) \<longrightarrow>
        backendStatus (app (run es' (run es mount))) = backendStatus (app (run es mount))
        \<and> status_text (App_view (app (run es' (run es mount))))
            = status_text (App_view (app (run es mount))))"
  using run_status_fixed [of "run es mount" es']
  by (simp add: run_health_count App_view_def) (simp add: mount_def)

theorem health_checked_once_witness:
  "\<not> health_pending (run [HealthSettled
        (Response True (Parsed (JObj [(''status'', JStr ''healthy'')])))] mount)
   \<and> backendStatus (app (run
        [InputChange ''https://example.com'', FormSubmit,
         HealthSettled (Response False (Parsed JNull)), CloneSettled (Rejected ''Failed to fetch'')]
        (run [HealthSettled
          (Response True (Parsed (JObj [(''status'', JStr ''healthy'')])))] mount)))
       = JStr ''healthy''"
  using health_checked_once
          [of "[HealthSettled (Response True (Parsed (JObj [(''status'', JStr ''healthy'')])))]"
              "[InputChange ''https://example.com'', FormSubmit,
                HealthSettled (Response False (Parsed JNull)),
                CloneSettled (Rejected ''Failed to fetch'')]"]
  by (simp add: handler_defs App_view_def mount_def init_state_def)

section \<open>Properties of the pipeline\<close>

subsection \<open>The orchestrator\<close>

lemma run6: "orch_run env c 6 st =
  orch_step env c (orch_step env c (orch_step env c (orch_step env c
    (orch_step env c (orch_step env c st)))))"
  by (simp add: eval_nat_numeral)

lemma clone_unfold:
  "clone env c rq =
     (case validate_url (rawUrl rq) of
        Inl k \<Rightarrow> Some (Failure k invalid_url_message, [])
      | Inr u \<Rightarrow>
         (case render env u of
            Failed k m \<Rightarrow> Some (Failure k (readable k m), [RenderCall u])
          | Raised m \<Rightarrow> Some (Failure InternalError (readable InternalError m), [RenderCall u])
          | Returned p \<Rightarrow>
             (case build env (extract_page c p) of
                Failed k m \<Rightarrow> Some (Failure k (readable k m), [RenderCall u])
              | Raised m \<Rightarrow>
                  Some (Failure InternalError (readable InternalError m), [RenderCall u])
              | Returned pr \<Rightarrow>
                 (case generate env pr of
                    Failed k m \<Rightarrow>
                      Some (Failure k (readable k m), [RenderCall u, GenerateCall pr])
                  | Raised m \<Rightarrow>
                      Some (Failure InternalError (readable InternalError m),
                            [RenderCall u, GenerateCall pr])
                  | Returned t \<Rightarrow>
                     (case sanitize env t of
                        Failed k m \<Rightarrow>
                          Some (Failure k (readable k m), [RenderCall u, GenerateCall pr])
                      | Raised m \<Rightarrow>
                          Some (Failure InternalError (readable InternalError m),
                                [RenderCall u, GenerateCall pr])
                      | Returned h \<Rightarrow>
                          Some (Success \<lparr>html = h\<rparr>, [RenderCall u, GenerateCall pr]))))))"
  unfolding clone_def run6
  by (simp add: settle_def split: sum.splits outcome.splits)






lemma settle_cases:
  "(\<exists>v. out = Returned v \<and> settle out nxt = nxt v)
   \<or> (\<exists>r. settle out nxt = Done r)"
  by (cases out) (simp_all add: settle_def)









subsection \<open>The validator\<close>

lemma scheme_prefix:
  assumes "lower (takeWhile (\<lambda>c. c \<noteq> CHR '':'') raw) = w"
      and "take 3 (dropWhile (\<lambda>c. c \<noteq> CHR '':'') raw) = ''://''"
      and "length w = n"
  shows "lower (take (Suc n) raw) = w @ '':''"
proof -
  let ?P = "\<lambda>c. c \<noteq> CHR '':''"
  from assms(2) obtain rest where r: "dropWhile ?P raw = CHR '':'' # rest"
    by (cases "dropWhile ?P raw") auto
  have len: "length (takeWhile ?P raw) = n"
    using assms(1,3) by (auto simp add: lower_def)
  have "raw = takeWhile ?P raw @ CHR '':'' # rest"
    using r takeWhile_dropWhile_id [of ?P raw] by simp
  then have "take (Suc n) raw = take (Suc n) (takeWhile ?P raw @ CHR '':'' # rest)"
    by simp
  also have "\<dots> = takeWhile ?P raw @ '':''"
    using len by simp
  finally show ?thesis
    using assms(1) by (simp add: lower_def lower_char_def)
qed

text \<open>
  C6: for every input string lacking an \<^verbatim>\<open>http\<close> or \<^verbatim>\<open>https\<close> scheme the validator
  fails with \<open>InvalidUrl\<close>, and the orchestrator returns that failure with no network
  call made: neither the Render Client nor the provider is invoked.
\<close>

theorem no_scheme_is_invalid:
  assumes "\<not> has_web_scheme raw"
  shows "validate_url raw = Inl InvalidUrl
         \<and> clone env c \<lparr>rawUrl = raw\<rparr> = Some (Failure InvalidUrl invalid_url_message, [])"
proof -
  have v: "validate_url raw = Inl InvalidUrl"
  proof (rule ccontr)
    assume n: "validate_url raw \<noteq> Inl InvalidUrl"
    then have s: "lower (takeWhile (\<lambda>c. c \<noteq> CHR '':'') raw) \<in> set allowed_schemes"
      and d: "take 3 (dropWhile (\<lambda>c. c \<noteq> CHR '':'') raw) = ''://''"
      by (auto simp add: validate_url_def Let_def split: if_splits)
    from s have "lower (takeWhile (\<lambda>c. c \<noteq> CHR '':'') raw) = ''http''
                 \<or> lower (takeWhile (\<lambda>c. c \<noteq> CHR '':'') raw) = ''https''"
      by (simp add: allowed_schemes_def)
    then have "has_web_scheme raw"
    proof
      assume h: "lower (takeWhile (\<lambda>c. c \<noteq> CHR '':'') raw) = ''http''"
      have "lower (take (Suc 4) raw) = ''http'' @ '':''"
        by (rule scheme_prefix [OF h d]) simp
      then show ?thesis by (simp add: has_web_scheme_def)
    next
      assume h: "lower (takeWhile (\<lambda>c. c \<noteq> CHR '':'') raw) = ''https''"
      have "lower (take (Suc 5) raw) = ''https'' @ '':''"
        by (rule scheme_prefix [OF h d]) simp
      then show ?thesis by (simp add: has_web_scheme_def)
    qed
    with assms show False by simp
  qed
  then show ?thesis by (simp add: clone_unfold)
qed

theorem no_scheme_is_invalid_witness:
  "\<not> has_web_scheme ''ftp://example.com/''
   \<and> validate_url ''ftp://example.com/'' = Inl InvalidUrl
   \<and> clone stub_env default_config \<lparr>rawUrl = ''ftp://example.com/''\<rparr>
       = Some (Failure InvalidUrl invalid_url_message, [])
   \<and> \<not> has_web_scheme ''example.com''
   \<and> clone stub_env default_config \<lparr>rawUrl = ''example.com''\<rparr>
       = Some (Failure InvalidUrl invalid_url_message, [])"
proof -
  have a: "\<not> has_web_scheme ''ftp://example.com/''"
    by (simp add: has_web_scheme_def lower_def lower_char_def)
  have b: "\<not> has_web_scheme ''example.com''"
    by (simp add: has_web_scheme_def lower_def lower_char_def)
  show ?thesis
    using a b no_scheme_is_invalid [OF a, of stub_env default_config]
      no_scheme_is_invalid [OF b, of stub_env default_config]
    by simp
qed

subsection \<open>The extractor\<close>

lemma prune_settled: "prune c bs = [] \<or> fits c (prune c bs)"
proof (induction c bs rule: prune.induct)
  case (1 c bs)
  show ?case
  proof (cases "bs = [] \<or> fits c bs")
    case True
    then have "prune c bs = bs"
      by (subst prune.simps) simp
    then show ?thesis using True by auto
  next
    case False
    then have "prune c bs = prune c (drop_last_bfs bs)"
      by (subst prune.simps) (simp del: prune.simps)
    then show ?thesis using "1.IH" [OF False] by (simp del: prune.simps)
  qed
qed

lemma fits_Nil: "fits c []"
  by (simp add: fits_def model_depth_def serialize_model_def)

lemma prune_fits: "fits c (prune c bs)"
  using prune_settled [of c bs] fits_Nil [of c] by (auto simp del: prune.simps)

lemma prune_fixed: "prune c (prune c bs) = prune c bs"
  using prune_fits [of c bs] by (subst prune.simps) (simp del: prune.simps)

lemma stub_model:
  "concat (map extract_node (htmlSnapshot stub_page)) =
     [Block KContainer None []
       [Block KContainer None [(''layoutRole'', ''block'')]
         [Block KHeading (Some ''Hi'') [(''color'', ''red'')] [],
          Block KParagraph (Some ''World'') [] []]]]"
  by (simp add: stub_page_def classify_def style_hints_def)

lemma stub_truncated:
  "extract_page \<lparr>max_depth = 6, max_bytes = 200\<rparr> stub_page =
     [Block KContainer None []
       [Block KContainer None [(''layoutRole'', ''block'')]
         [Block KHeading (Some ''Hi'') [(''color'', ''red'')] []]]]"
  unfolding extract_page_def stub_model
  by (simp add: fits_def model_depth_def drop_last_bfs_def serialize_model_def quoted_def)

lemma stub_truncated_depth:
  "extract_page \<lparr>max_depth = 2, max_bytes = 51200\<rparr> stub_page =
     [Block KContainer None [] [Block KContainer None [(''layoutRole'', ''block'')] []]]"
  unfolding extract_page_def stub_model
  by (simp add: fits_def model_depth_def drop_last_bfs_def serialize_model_def quoted_def)

lemma stub_full:
  "length (serialize_model (concat (map extract_node (htmlSnapshot stub_page)))) = 259"
  unfolding stub_model
  by (simp add: serialize_model_def quoted_def)

text \<open>
  C7: for every rendered page, whatever its size, the extracted PageModel is within the
  depth ceiling and the byte ceiling on its serialised size; it is a function of the
  snapshot alone, so pages with the same snapshot give identical PageModels with identical
  serialisations; and truncating an extracted PageModel again changes nothing.
\<close>

theorem extraction_bounded_and_deterministic:
  "model_depth (extract_page c p) \<le> max_depth c
   \<and> length (serialize_model (extract_page c p)) \<le> max_bytes c
   \<and> (htmlSnapshot p = htmlSnapshot q \<longrightarrow>
        extract_page c p = extract_page c q
        \<and> serialize_model (extract_page c p) = serialize_model (extract_page c q))
   \<and> prune c (extract_page c p) = extract_page c p"
  using prune_fits [of c "concat (map extract_node (htmlSnapshot p))"]
    prune_fixed [of c "concat (map extract_node (htmlSnapshot p))"]
  by (simp add: extract_page_def fits_def del: prune.simps)

theorem extraction_bounded_and_deterministic_witness:
  "length (serialize_model (concat (map extract_node (htmlSnapshot stub_page)))) = 259
   \<and> extract_page \<lparr>max_depth = 6, max_bytes = 200\<rparr> stub_page =
       [Block KContainer None []
         [Block KContainer None [(''layoutRole'', ''block'')]
           [Block KHeading (Some ''Hi'') [(''color'', ''red'')] []]]]
   \<and> model_depth (extract_page \<lparr>max_depth = 6, max_bytes = 200\<rparr> stub_page) \<le> 6
   \<and> length (serialize_model (extract_page \<lparr>max_depth = 6, max_bytes = 200\<rparr> stub_page)) \<le> 200
   \<and> extract_page \<lparr>max_depth = 6, max_bytes = 200\<rparr> stub_page
       = extract_page \<lparr>max_depth = 6, max_bytes = 200\<rparr>
           (stub_page\<lparr>finalUrl := ''https://www.example.com/'', renderDurationMs := 950\<rparr>)"
proof -
  have same: "htmlSnapshot stub_page
      = htmlSnapshot (stub_page\<lparr>finalUrl := ''https://www.example.com/'',
                                renderDurationMs := 950\<rparr>)"
    by simp
  have ceilings: "max_depth \<lparr>max_depth = 6, max_bytes = 200\<rparr> = 6"
    "max_bytes \<lparr>max_depth = 6, max_bytes = 200\<rparr> = 200"
    by simp_all
  show ?thesis
    using same stub_full stub_truncated extraction_bounded_and_deterministic
          [of "\<lparr>max_depth = 6, max_bytes = 200\<rparr>" stub_page
              "stub_page\<lparr>finalUrl := ''https://www.example.com/'', renderDurationMs := 950\<rparr>"]
    unfolding ceilings by blast
qed

end
